theory Spec2Isabelle
  imports Complex_Main
begin

section \<open>JavaScript values used by the EDA command layer\<close>

text \<open>
  A JavaScript string is a sequence of UTF-16 code units; a code unit is modelled by its
  number. String literals of the source are written with \<open>js\<close>.
\<close>

type_synonym jsstring = "nat list"

definition js :: "string \<Rightarrow> jsstring" where
  "js s = map of_char s"

text \<open>
  The numbers the commands compute with are cell and level counts: integers. The one
  division of the source, the percentage of \<open>performVerification\<close>, yields a JavaScript
  number that may be infinite or NaN when the divisor is zero; its finite values are kept
  exact (the rounding of IEEE doubles is not modelled).
\<close>

datatype jsnumber = Finite rat | PosInfinity | NegInfinity | NaN

definition js_div :: "int \<Rightarrow> int \<Rightarrow> jsnumber" where
  "js_div a b =
     (if b = 0 then (if a = 0 then NaN else if 0 < a then PosInfinity else NegInfinity)
      else Finite (of_int a / of_int b))"

fun js_times :: "jsnumber \<Rightarrow> int \<Rightarrow> jsnumber" where
  "js_times (Finite r) k = Finite (r * of_int k)"
| "js_times PosInfinity k = (if k = 0 then NaN else if 0 < k then PosInfinity else NegInfinity)"
| "js_times NegInfinity k = (if k = 0 then NaN else if 0 < k then NegInfinity else PosInfinity)"
| "js_times NaN k = NaN"

subsection \<open>Character classes of the regular expressions\<close>

text \<open>\<open>\d\<close>: the ASCII digits.\<close>

definition is_digit :: "nat \<Rightarrow> bool" where
  "is_digit c \<longleftrightarrow> 48 \<le> c \<and> c \<le> 57"

text \<open>\<open>\s\<close>: the white space and line terminator code units of ECMAScript.\<close>

definition is_space :: "nat \<Rightarrow> bool" where
  "is_space c \<longleftrightarrow>
     c = 9 \<or> c = 10 \<or> c = 11 \<or> c = 12 \<or> c = 13 \<or> c = 32 \<or> c = 160 \<or> c = 5760 \<or>
     (8192 \<le> c \<and> c \<le> 8202) \<or> c = 8232 \<or> c = 8233 \<or> c = 8239 \<or> c = 8287 \<or>
     c = 12288 \<or> c = 65279"

text \<open>\<open>.\<close> matches every code unit but the four line terminators.\<close>

definition is_dot :: "nat \<Rightarrow> bool" where
  "is_dot c \<longleftrightarrow> c \<noteq> 10 \<and> c \<noteq> 13 \<and> c \<noteq> 8232 \<and> c \<noteq> 8233"

text \<open>
  Under the \<open>i\<close> flag two code units match when their canonical forms agree. The
  pattern characters of the source are ASCII characters and the superscript two; against
  those, only the ASCII letters have a second spelling, so the upper-casing of a-z is
  all of the canonicalisation that is needed.
\<close>

definition canonicalize :: "nat \<Rightarrow> nat" where
  "canonicalize c = (if 97 \<le> c \<and> c \<le> 122 then c - 32 else c)"

subsection \<open>A backtracking matcher in continuation style\<close>

text \<open>
  A pattern is matched at the start of the remaining input and hands what is left to
  its continuation; when the continuation fails the pattern tries its next alternative,
  as the backtracking matcher of the language does.
\<close>

type_synonym 'r cont = "jsstring \<Rightarrow> 'r option"

fun re_lit :: "jsstring \<Rightarrow> 'r cont \<Rightarrow> 'r cont" where
  "re_lit [] k s = k s"
| "re_lit (p # ps) k [] = None"
| "re_lit (p # ps) k (c # cs) =
     (if canonicalize c = canonicalize p then re_lit ps k cs else None)"

fun re_one :: "(nat \<Rightarrow> bool) \<Rightarrow> 'r cont \<Rightarrow> 'r cont" where
  "re_one P k [] = None"
| "re_one P k (c # cs) = (if P c then k cs else None)"

text \<open>Greedy \<open>X*\<close>: take one more if possible, fall back to stopping here.\<close>

fun re_star :: "(nat \<Rightarrow> bool) \<Rightarrow> 'r cont \<Rightarrow> 'r cont" where
  "re_star P k [] = k []"
| "re_star P k (c # cs) =
     (if P c then (case re_star P k cs of Some r \<Rightarrow> Some r | None \<Rightarrow> k (c # cs))
      else k (c # cs))"

definition re_plus :: "(nat \<Rightarrow> bool) \<Rightarrow> 'r cont \<Rightarrow> 'r cont" where
  "re_plus P k = re_one P (re_star P k)"

text \<open>Lazy \<open>X*?\<close>: stop here if the rest matches, take one more otherwise.\<close>

fun re_lazy :: "(nat \<Rightarrow> bool) \<Rightarrow> 'r cont \<Rightarrow> 'r cont" where
  "re_lazy P k [] = k []"
| "re_lazy P k (c # cs) =
     (case k (c # cs) of Some r \<Rightarrow> Some r
      | None \<Rightarrow> if P c then re_lazy P k cs else None)"

text \<open>Greedy \<open>(?:X)?\<close>.\<close>

definition re_opt :: "('r cont \<Rightarrow> 'r cont) \<Rightarrow> 'r cont \<Rightarrow> 'r cont" where
  "re_opt r k s = (case r k s of Some x \<Rightarrow> Some x | None \<Rightarrow> k s)"

text \<open>A capture group: the continuation also receives the text the group consumed.\<close>

definition re_group :: "('r cont \<Rightarrow> 'r cont) \<Rightarrow> (jsstring \<Rightarrow> 'r cont) \<Rightarrow> 'r cont" where
  "re_group r k s = r (\<lambda>rest. k (take (length s - length rest) s) rest) s"

text \<open>
  \<open>String.prototype.match\<close> with a pattern without the \<open>g\<close> flag: the match at the
  leftmost start position. A match is reported as its first capture and the input after it.
\<close>

type_synonym regex = "jsstring \<Rightarrow> (jsstring \<times> jsstring) option"

fun match :: "regex \<Rightarrow> jsstring \<Rightarrow> (jsstring \<times> jsstring) option" where
  "match re [] = re []"
| "match re (c # cs) = (case re (c # cs) of Some m \<Rightarrow> Some m | None \<Rightarrow> match re cs)"

text \<open>
  \<open>String.prototype.matchAll\<close> with a \<open>g\<close> pattern: the captures of the successive
  matches, each search starting where the previous match ended, and one code unit
  further after an empty match.
\<close>

fun matchAll :: "regex \<Rightarrow> jsstring \<Rightarrow> jsstring list" where
  "matchAll re [] = (case re [] of Some (cap, rest) \<Rightarrow> [cap] | None \<Rightarrow> [])"
| "matchAll re (c # cs) =
     (case re (c # cs) of
        Some (cap, rest) \<Rightarrow>
          if length rest \<le> length cs then cap # matchAll re rest else cap # matchAll re cs
      | None \<Rightarrow> matchAll re cs)"

section \<open>The metrics extractor (\<open>YosysParser\<close>)\<close>

text \<open>
  The four patterns of the source, in the matcher's combinators:
  \<^verbatim>\<open>/Number of cells:\s*(\d+)/i\<close>,
  \<^verbatim>\<open>/Longest path \(levels\):\s*(\d+)/i\<close>,
  \<^verbatim>\<open>/Chip area for module.*?:\s*(\d+(?:\.\d+)?)\s*um2/i\<close> (the unit's last character is
  the superscript two, code unit 178) and \<^verbatim>\<open>/Warning:\s*(\d+)/gi\<close>.
\<close>

definition accept :: "jsstring \<Rightarrow> (jsstring \<times> jsstring) cont" where
  "accept cap rest = Some (cap, rest)"

definition CELLS_PATTERN :: regex where
  "CELLS_PATTERN =
     re_lit (js ''Number of cells:'') (re_star is_space (re_group (re_plus is_digit) accept))"

definition LEVELS_PATTERN :: regex where
  "LEVELS_PATTERN =
     re_lit (js ''Longest path (levels):'') (re_star is_space (re_group (re_plus is_digit) accept))"

definition AREA_PATTERN :: regex where
  "AREA_PATTERN =
     re_lit (js ''Chip area for module'')
       (re_lazy is_dot
         (re_one (\<lambda>c. c = 58)
           (re_star is_space
             (re_group (\<lambda>k. re_plus is_digit (re_opt (\<lambda>k'. re_one (\<lambda>c. c = 46) (re_plus is_digit k')) k))
               (\<lambda>cap. re_star is_space (re_lit (js ''um'' @ [178]) (accept cap)))))))"

definition WARNINGS_PATTERN :: regex where
  "WARNINGS_PATTERN =
     re_lit (js ''Warning:'') (re_star is_space (re_group (re_plus is_digit) accept))"

text \<open>
  \<open>parseInt(s, 10)\<close> and \<open>parseFloat(s)\<close> on what the capture groups can hold: a run of
  digits, and a run of digits with an optional fraction. There the result is the decimal
  number written; it is kept exact (no rounding to a double). On a text that starts with
  no digit both functions of the language give NaN, which no capture of the four
  patterns can cause.
\<close>

definition decimal :: "jsstring \<Rightarrow> int" where
  "decimal ds = foldl (\<lambda>n c. 10 * n + int (c - 48)) 0 ds"

definition parseInt :: "jsstring \<Rightarrow> int" where
  "parseInt s = decimal (takeWhile is_digit s)"

definition parseFloat :: "jsstring \<Rightarrow> rat" where
  "parseFloat s =
     (let ip = takeWhile is_digit s; r = dropWhile is_digit s
      in case r of
           [] \<Rightarrow> of_int (decimal ip)
         | c # fs \<Rightarrow>
             if c = 46 \<and> takeWhile is_digit fs \<noteq> []
             then of_int (decimal ip)
                  + of_int (decimal (takeWhile is_digit fs)) / 10 ^ length (takeWhile is_digit fs)
             else of_int (decimal ip))"

record EdaYosysOutput =
  stdout :: jsstring
  stderr :: jsstring
  exitCode :: int
  duration :: int

record EdaParsedMetrics =
  cells :: int
  levels :: int
  area_um2 :: "rat option"
  warnings :: "int option"

definition extractCells :: "jsstring \<Rightarrow> int option" where
  "extractCells output =
     (case match CELLS_PATTERN output of Some (cap, rest) \<Rightarrow> Some (parseInt cap) | None \<Rightarrow> None)"

definition extractLevels :: "jsstring \<Rightarrow> int option" where
  "extractLevels output =
     (case match LEVELS_PATTERN output of Some (cap, rest) \<Rightarrow> Some (parseInt cap) | None \<Rightarrow> None)"

definition extractArea :: "jsstring \<Rightarrow> rat option" where
  "extractArea output =
     (case match AREA_PATTERN output of Some (cap, rest) \<Rightarrow> Some (parseFloat cap) | None \<Rightarrow> None)"

definition extractWarnings :: "jsstring \<Rightarrow> int option" where
  "extractWarnings output =
     Some (foldl (\<lambda>count cap. count + parseInt cap) 0 (matchAll WARNINGS_PATTERN output))"

text \<open>
  The text all four patterns are matched on: stdout, a line feed, stderr. Nothing in the
  body of \<open>parseMetrics\<close> throws, so its \<open>catch\<close> block has no counterpart here.
\<close>

definition combinedOutput :: "EdaYosysOutput \<Rightarrow> jsstring" where
  "combinedOutput output = stdout output @ [10] @ stderr output"

definition parseMetrics :: "EdaYosysOutput \<Rightarrow> EdaParsedMetrics option" where
  "parseMetrics output =
     (let cells = extractCells (combinedOutput output);
          levels = extractLevels (combinedOutput output);
          area_um2 = extractArea (combinedOutput output);
          warnings = extractWarnings (combinedOutput output)
      in case (cells, levels) of
           (Some c, Some l) \<Rightarrow>
             Some \<lparr>cells = c, levels = l, area_um2 = area_um2, warnings = warnings\<rparr>
         | _ \<Rightarrow> None)"

section \<open>The QoR verifier (\<open>EdaCommands.performVerification\<close>)\<close>

text \<open>
  \<open>EdaMetrics\<close> is \<open>EdaParsedMetrics\<close> with the three fields reserved for place and
  route. The two nested objects of \<open>EdaVerificationResult\<close> are records of their own;
  their fields carry the object's name in front (\<open>cells.delta\<close> is \<open>cells_delta\<close>).
\<close>

record EdaMetrics = EdaParsedMetrics +
  wns_ns :: "rat option"
  tns_ns :: "rat option"
  utilization_pct :: "rat option"

record cells_comparison =
  cells_base :: int
  cells_now :: int
  cells_delta :: int
  cells_delta_pct :: jsnumber

record levels_comparison =
  levels_base :: int
  levels_now :: int
  levels_delta :: int

record EdaVerificationResult =
  accepted :: bool
  cells_cmp :: cells_comparison
  levels_cmp :: levels_comparison
  message :: jsstring

text \<open>An integer in a template literal, and \<open>String.prototype.trim\<close>.\<close>

fun digits :: "nat \<Rightarrow> jsstring" where
  "digits n = (if n < 10 then [48 + n] else digits (n div 10) @ [48 + n mod 10])"

declare digits.simps [simp del]

definition number_text :: "int \<Rightarrow> jsstring" where
  "number_text i = (if i < 0 then 45 # digits (nat (- i)) else digits (nat i))"

definition trim :: "jsstring \<Rightarrow> jsstring" where
  "trim s = rev (dropWhile is_space (rev (dropWhile is_space s)))"

definition performVerification :: "EdaMetrics \<Rightarrow> EdaMetrics \<Rightarrow> EdaVerificationResult" where
  "performVerification baseline current =
     (let cellsDelta = cells current - cells baseline;
          cellsDeltaPct = js_times (js_div cellsDelta (cells baseline)) 100;
          levelsDelta = levels current - levels baseline;
          levelsOk = (levels current \<le> levels baseline);
          cellsOk = (cells current \<le> cells baseline);
          accepted = (levelsOk \<and> cellsOk);
          message = trim
            ([10] @ js ''cells  base: '' @ number_text (cells baseline)
               @ js ''  now: '' @ number_text (cells current) @ [10]
               @ js ''levels base: '' @ number_text (levels baseline)
               @ js ''     now: '' @ number_text (levels current) @ [10]
               @ (if accepted then [9989] @ js '' Accepted'' else [10060] @ js '' Rejected'')
               @ [10])
      in \<lparr>accepted = accepted,
          cells_cmp = \<lparr>cells_base = cells baseline, cells_now = cells current,
                       cells_delta = cellsDelta, cells_delta_pct = cellsDeltaPct\<rparr>,
          levels_cmp = \<lparr>levels_base = levels baseline, levels_now = levels current,
                        levels_delta = levelsDelta\<rparr>,
          message = message\<rparr>)"

section \<open>The command layer (\<open>EdaCommands\<close>, \<open>EdaValidator\<close>, \<open>EdaCli\<close>)\<close>

subsection \<open>The records of \<open>types.ts\<close>\<close>

text \<open>
  Several interfaces of the source share field names (\<open>seed\<close>, \<open>cwd\<close>, \<open>metrics\<close>,
  \<open>exitCode\<close>, ...). Each record keeps the source's names; where a later record hides
  a name, the field is written with its record in front (\<open>EdaRun.seed\<close>). The
  \<open>warnings\<close> of \<open>EdaValidationResult\<close> are \<open>validation_warnings\<close>, so that \<open>warnings\<close>
  stays the metric. \<open>null\<close> and \<open>undefined\<close> are \<open>None\<close>. An \<open>EdaCommandResult\<close>
  carries, as its \<open>data\<close>, a Result or a verification outcome.
\<close>

record EdaProvenance =
  tool :: jsstring
  tool_version :: jsstring
  git_commit :: "jsstring option"
  timestamp_utc :: jsstring
  host :: jsstring
  os :: jsstring
  gemini_eda_version :: jsstring

record EdaRun =
  script_path :: jsstring
  seed :: "int option"
  cwd :: jsstring
  cmd :: jsstring
  duration_ms :: int
  exit_code :: int

record EdaArtifacts =
  log_path :: jsstring
  output_netlist :: "jsstring option"

record EdaResult =
  provenance :: EdaProvenance
  run :: EdaRun
  metrics :: EdaMetrics
  artifacts :: EdaArtifacts

record EdaBaselineRunInfo =
  script_path :: jsstring
  seed :: "int option"

record EdaBaseline =
  metrics :: EdaMetrics
  timestamp_utc :: jsstring
  run_info :: EdaBaselineRunInfo

record EdaCommandContext =
  cwd :: jsstring
  edaDir :: jsstring
  logsDir :: jsstring
  lastRunDir :: jsstring
  recipesDir :: jsstring
  rtlDir :: jsstring
  buildDir :: jsstring

record EdaCommandOptions =
  force :: "bool option"
  seed :: "int option"
  verbose :: "bool option"

record EdaValidationResult =
  valid :: bool
  errors :: "jsstring list"
  validation_warnings :: "jsstring list"

datatype command_data = ResultData EdaResult | VerificationData EdaVerificationResult

record EdaCommandResult =
  success :: bool
  message :: jsstring
  data :: "command_data option"
  exitCode :: "int option"

definition EDA_DIR_NAME :: jsstring where "EDA_DIR_NAME = js ''.gemini_eda''"

definition EDA_LOGS_DIR :: jsstring where "EDA_LOGS_DIR = js ''logs''"

definition EDA_LAST_RUN_DIR :: jsstring where "EDA_LAST_RUN_DIR = js ''last_run''"

definition EDA_RECIPES_DIR :: jsstring where "EDA_RECIPES_DIR = js ''recipes''"

definition EDA_RTL_DIR :: jsstring where "EDA_RTL_DIR = js ''rtl''"

definition EDA_BUILD_DIR :: jsstring where "EDA_BUILD_DIR = js ''build''"

definition EDA_BASELINE_FILE :: jsstring where "EDA_BASELINE_FILE = js ''baseline.json''"

definition EDA_RESULT_FILE :: jsstring where "EDA_RESULT_FILE = js ''result.json''"

definition EDA_LOG_FILE :: jsstring where "EDA_LOG_FILE = js ''yosys.log''"

definition DEFAULT_RECIPE_NAME :: jsstring where "DEFAULT_RECIPE_NAME = js ''synth_resyn2.ys''"

definition EDA_VERSION :: jsstring where "EDA_VERSION = js ''v0.7''"

text \<open>Lines joined by line feeds (\<open>Array.prototype.join\<close> with a line feed).\<close>

fun join_lines :: "jsstring list \<Rightarrow> jsstring" where
  "join_lines [] = []"
| "join_lines [l] = l"
| "join_lines (l # ls) = l @ [10] @ join_lines ls"

definition DEFAULT_RECIPE_CONTENT :: jsstring where
  "DEFAULT_RECIPE_CONTENT = join_lines
     [js ''# Sample Yosys synthesis script for resyn2 optimization'',
      js ''# This script reads Verilog files from rtl/ and performs synthesis with resyn2'',
      [],
      js ''# Read Verilog files from rtl directory'',
      js ''read_verilog rtl/top.v'',
      [],
      js ''# Set top module'',
      js ''hierarchy -top top'',
      [],
      js ''# Synthesize to generic gates'',
      js ''synth'',
      [],
      js ''# Optimize with resyn2 algorithm'',
      js ''#abc -script +resyn2'',
      [],
      js ''# Print statistics'',
      js ''stat'',
      [],
      js ''# Write synthesized netlist'',
      js ''write_verilog -noattr build/top.synth.v'',
      [],
      js ''# Optional: Write JSON netlist for further processing'',
      js ''# write_json build/top.synth.json'']"

subsection \<open>The world a command runs in\<close>

text \<open>
  The file system maps a path to a directory or to a file with its content. The two
  JSON documents the commands persist are kept as the records they serialise
  (\<open>JSON.parse\<close> of what \<open>JSON.stringify\<close> wrote gives the record back); any other
  text, when parsed as JSON by a command, counts as not parseable. What else the
  commands ask of their environment is a field of the world: a path on which directory
  creation, reading or writing fails (with the error's text), path resolution, the
  answers of \<open>isYosysAvailable\<close> and \<open>getYosysVersion\<close>, the child process that
  \<open>spawn\<close> starts for an argument list, the elapsed time and the clock, the output of
  \<open>git rev-parse HEAD\<close>, the host and platform, the text of a number that is not an
  integer, and the listing of the recipes directory.
\<close>

datatype content = Text jsstring | ResultJson EdaResult | BaselineJson EdaBaseline

datatype node = Directory | File content

text \<open>
  The child process as \<open>runYosys\<close> sees it: the data received on its two streams and the
  first of the events \<open>close\<close> (with the exit code, or null when the process was
  terminated by a signal, as it is when the timeout of \<open>spawn\<close> fires) and \<open>error\<close>.
\<close>

datatype ending = Close "int option" | Error jsstring

record child_process =
  stdout_data :: jsstring
  stderr_data :: jsstring
  ending :: ending

record world =
  fs :: "jsstring \<Rightarrow> node option"
  io_error :: "jsstring \<Rightarrow> jsstring option"
  resolve :: "jsstring \<Rightarrow> jsstring"
  yosys_available :: bool
  yosys_version :: "jsstring option"
  spawn_yosys :: "jsstring list \<Rightarrow> child_process"
  elapsed_ms :: int
  clock_iso :: jsstring
  git_head :: "jsstring option"
  hostname :: jsstring
  platform_arch :: jsstring
  float_text :: "rat \<Rightarrow> jsstring"
  listed_recipes :: "(jsstring \<times> jsstring option) list"

text \<open>\<open>path.join\<close>, without the normalisation of the joined path.\<close>

definition join :: "jsstring \<Rightarrow> jsstring \<Rightarrow> jsstring" where
  "join a b = a @ [47] @ b"

text \<open>
  \<open>fs.mkdir\<close> (recursive), \<open>fs.writeFile\<close> and \<open>fs.readFile\<close>: \<open>Inl\<close> is the text of the
  error thrown.
\<close>

definition mkdir :: "world \<Rightarrow> jsstring \<Rightarrow> jsstring + world" where
  "mkdir w dir =
     (case io_error w dir of
        Some e \<Rightarrow> Inl e
      | None \<Rightarrow>
          (case fs w dir of
             Some (File c) \<Rightarrow> Inl (js ''Error: EEXIST: file already exists, mkdir '' @ dir)
           | _ \<Rightarrow> Inr (w\<lparr>fs := (fs w)(dir \<mapsto> Directory)\<rparr>)))"

definition writeFile :: "world \<Rightarrow> jsstring \<Rightarrow> content \<Rightarrow> jsstring + world" where
  "writeFile w path c =
     (case io_error w path of
        Some e \<Rightarrow> Inl e
      | None \<Rightarrow>
          (case fs w path of
             Some Directory \<Rightarrow> Inl (js ''Error: EISDIR: illegal operation on a directory, open '' @ path)
           | _ \<Rightarrow> Inr (w\<lparr>fs := (fs w)(path \<mapsto> File c)\<rparr>)))"

definition readFile :: "world \<Rightarrow> jsstring \<Rightarrow> jsstring + content" where
  "readFile w path =
     (case io_error w path of
        Some e \<Rightarrow> Inl e
      | None \<Rightarrow>
          (case fs w path of
             Some (File c) \<Rightarrow> Inr c
           | Some Directory \<Rightarrow> Inl (js ''Error: EISDIR: illegal operation on a directory, read'')
           | None \<Rightarrow> Inl (js ''Error: ENOENT: no such file or directory, open '' @ path)))"

text \<open>
  \<open>JSON.parse\<close> of a file's content, followed by the property accesses of the command
  that reads it: \<open>baselineSeed\<close> and \<open>last\<close> read a result, \<open>verify\<close> reads the
  \<open>metrics\<close> of both documents.
\<close>

definition as_result :: "content \<Rightarrow> jsstring + EdaResult" where
  "as_result c =
     (case c of
        ResultJson r \<Rightarrow> Inr r
      | BaselineJson b \<Rightarrow> Inl (js ''TypeError: Cannot read properties of undefined'')
      | Text t \<Rightarrow> Inl (js ''SyntaxError: Unexpected token in JSON''))"

definition metrics_of :: "content \<Rightarrow> jsstring + EdaMetrics" where
  "metrics_of c =
     (case c of
        ResultJson r \<Rightarrow> Inr (EdaResult.metrics r)
      | BaselineJson b \<Rightarrow> Inr (EdaBaseline.metrics b)
      | Text t \<Rightarrow> Inl (js ''SyntaxError: Unexpected token in JSON''))"

subsection \<open>\<open>EdaValidator\<close>\<close>

definition fileExists :: "world \<Rightarrow> jsstring \<Rightarrow> bool" where
  "fileExists w filePath = (case fs w filePath of Some (File c) \<Rightarrow> True | _ \<Rightarrow> False)"

definition validateRecipeFile :: "world \<Rightarrow> jsstring \<Rightarrow> EdaValidationResult" where
  "validateRecipeFile w recipePath =
     (let errors =
        (case fs w recipePath of
           Some (File c) \<Rightarrow> []
         | Some Directory \<Rightarrow> [recipePath @ js '' exists but is not a file'']
         | None \<Rightarrow> [js ''Recipe file not found: '' @ recipePath])
      in \<lparr>valid = (errors = []), errors = errors, validation_warnings = []\<rparr>)"

definition validateDirectoryStructure :: "world \<Rightarrow> EdaCommandContext \<Rightarrow> EdaValidationResult" where
  "validateDirectoryStructure w context =
     (let errors =
        (case fs w (rtlDir context) of
           Some Directory \<Rightarrow> []
         | Some (File c) \<Rightarrow> [rtlDir context @ js '' exists but is not a directory'']
         | None \<Rightarrow> [js ''rtl/ directory not found. Create rtl/ and add your sources (e.g., rtl/top.v)''])
        @ (case fs w (recipesDir context) of
             Some (File c) \<Rightarrow> [recipesDir context @ js '' exists but is not a directory'']
           | _ \<Rightarrow> []);
          warnings =
        (case fs w (recipesDir context) of
           None \<Rightarrow> [js ''recipes/ directory not found. Run /eda:recipe:init to create it'']
         | _ \<Rightarrow> [])
        @ (case fs w (buildDir context) of
             Some (File c) \<Rightarrow> [buildDir context @ js '' exists but is not a directory'']
           | _ \<Rightarrow> [])
      in \<lparr>valid = (errors = []), errors = errors, validation_warnings = warnings\<rparr>)"

text \<open>
  \<open>ensureDirectories\<close> creates the five directories in turn and stops at the first
  failure; the directories created before it stay.
\<close>

fun mkdir_all :: "world \<Rightarrow> jsstring list \<Rightarrow> (jsstring + unit) \<times> world" where
  "mkdir_all w [] = (Inr (), w)"
| "mkdir_all w (dir # dirs) =
     (case mkdir w dir of
        Inl e \<Rightarrow> (Inl (js ''Error: Failed to create directory '' @ dir @ js '': '' @ e), w)
      | Inr w' \<Rightarrow> mkdir_all w' dirs)"

definition ensureDirectories :: "world \<Rightarrow> EdaCommandContext \<Rightarrow> (jsstring + unit) \<times> world" where
  "ensureDirectories w context =
     mkdir_all w [edaDir context, logsDir context, lastRunDir context, recipesDir context,
                  buildDir context]"

subsection \<open>The private helpers of \<open>EdaCommands\<close>\<close>

text \<open>
  \<open>runYosys\<close>: the argument list, and the two handlers that settle the promise. The
  exit code of the \<open>close\<close> handler is \<open>code || 0\<close>.
\<close>

definition yosys_args :: "jsstring \<Rightarrow> int option \<Rightarrow> jsstring list" where
  "yosys_args scriptPath seed' =
     [js ''-s'', scriptPath]
     @ (case seed' of
          None \<Rightarrow> []
        | Some n \<Rightarrow> [js ''-p'', js ''abc -script +resyn2 -seed '' @ number_text n])"

definition on_close :: "jsstring \<Rightarrow> jsstring \<Rightarrow> int option \<Rightarrow> jsstring \<times> jsstring \<times> int" where
  "on_close stdout' stderr' code =
     (stdout', stderr', (case code of None \<Rightarrow> 0 | Some c \<Rightarrow> if c = 0 then 0 else c))"

definition on_error :: "jsstring \<Rightarrow> jsstring \<Rightarrow> jsstring \<times> jsstring \<times> int" where
  "on_error stdout' error_message = (stdout', error_message, 1)"

definition runYosys :: "world \<Rightarrow> jsstring \<Rightarrow> int option \<Rightarrow> jsstring \<times> jsstring \<times> int" where
  "runYosys w scriptPath seed' =
     (let process = spawn_yosys w (yosys_args scriptPath seed')
      in case ending process of
           Close code \<Rightarrow> on_close (stdout_data process) (stderr_data process) code
         | Error error_message \<Rightarrow> on_error (stdout_data process) error_message)"

definition getGitCommit :: "world \<Rightarrow> jsstring option" where
  "getGitCommit w = map_option trim (git_head w)"

text \<open>\<^verbatim>\<open>/write_verilog.*?(\S+\.v)/\<close> on the text of the script.\<close>

fun re_exact :: "jsstring \<Rightarrow> 'r cont \<Rightarrow> 'r cont" where
  "re_exact [] k s = k s"
| "re_exact (p # ps) k [] = None"
| "re_exact (p # ps) k (c # cs) = (if c = p then re_exact ps k cs else None)"

definition NETLIST_PATTERN :: regex where
  "NETLIST_PATTERN =
     re_exact (js ''write_verilog'')
       (re_lazy is_dot
         (re_group (\<lambda>k. re_plus (\<lambda>c. \<not> is_space c) (re_exact (js ''.v'') k)) accept))"

definition extractOutputNetlist :: "world \<Rightarrow> jsstring \<Rightarrow> jsstring option" where
  "extractOutputNetlist w scriptPath =
     (case readFile w scriptPath of
        Inr (Text content) \<Rightarrow>
          (case match NETLIST_PATTERN content of Some (cap, rest) \<Rightarrow> Some cap | None \<Rightarrow> None)
      | _ \<Rightarrow> None)"

subsection \<open>The commands\<close>

text \<open>
  A command takes the world, the context, its arguments and options and returns its
  \<open>EdaCommandResult\<close> with the world it leaves. The body of each is the body of the
  source's \<open>try\<close> block; an error thrown inside it ends in the \<open>catch\<close> block's result.
  The methods are named with their class in front, since \<open>help\<close>, \<open>run\<close> and \<open>last\<close>
  are taken.
\<close>

definition helpText :: jsstring where
  "helpText = join_lines
     [[],
      js ''EDA Commands:'',
      js ''  /eda:help                    Show this help message'',
      js ''  /eda:recipe:init [--force]   Create recipes/ directory and sample script'',
      js ''  /eda:recipe:list             List available recipe files'',
      js ''  /eda:run [script] [--seed N] Run Yosys with script (default: recipes/synth_resyn2.ys)'',
      js ''  /eda:baseline:seed           Save last run as baseline for verification'',
      js ''  /eda:verify                  Compare QoR metrics against baseline'',
      js ''  /eda:last                    Show last run result and summary'',
      [],
      js ''Options:'',
      js ''  --force    Overwrite existing files'',
      js ''  --seed N   Set random seed for synthesis'',
      js ''  --verbose  Show detailed output'',
      [],
      js ''Examples:'',
      js ''  /eda:recipe:init'',
      js ''  /eda:run recipes/synth_resyn2.ys --seed 1'',
      js ''  /eda:baseline:seed'',
      js ''  /eda:run recipes/synth_resyn2.ys --seed 2'',
      js ''  /eda:verify'',
      []]"

definition EdaCommands_help ::
  "world \<Rightarrow> EdaCommandContext \<Rightarrow> jsstring list \<Rightarrow> EdaCommandOptions \<Rightarrow> EdaCommandResult \<times> world" where
  "EdaCommands_help w context args options =
     (\<lparr>success = True, message = trim helpText, data = None, exitCode = None\<rparr>, w)"

definition EdaCommands_recipeInit ::
  "world \<Rightarrow> EdaCommandContext \<Rightarrow> jsstring list \<Rightarrow> EdaCommandOptions \<Rightarrow> EdaCommandResult \<times> world" where
  "EdaCommands_recipeInit w context args options =
     (case ensureDirectories w context of
        (Inl error, w1) \<Rightarrow>
          (\<lparr>success = False, message = js ''Error creating recipe: '' @ error, data = None,
             exitCode = Some 1\<rparr>, w1)
      | (Inr u, w1) \<Rightarrow>
          (let recipePath = join (recipesDir context) DEFAULT_RECIPE_NAME
           in if fileExists w1 recipePath \<and> force options \<noteq> Some True
              then (\<lparr>success = False,
                      message = DEFAULT_RECIPE_NAME
                        @ js '' already exists. Use /eda:recipe:init --force to overwrite.'',
                      data = None, exitCode = Some 1\<rparr>, w1)
              else (case writeFile w1 recipePath (Text DEFAULT_RECIPE_CONTENT) of
                      Inl error \<Rightarrow>
                        (\<lparr>success = False, message = js ''Error creating recipe: '' @ error,
                           data = None, exitCode = Some 1\<rparr>, w1)
                    | Inr w2 \<Rightarrow>
                        (\<lparr>success = True, message = js ''Created '' @ recipePath, data = None,
                           exitCode = None\<rparr>, w2))))"

text \<open>
  \<open>recipeList\<close>. \<open>listRecipes\<close> catches every error of its own and returns the recipes
  it could read, newest first: the names and the modification dates in ISO form it
  returns are the world's \<open>listed_recipes\<close>. A date that is not valid has no ISO form
  (\<open>toISOString\<close> throws).
\<close>

fun recipe_lines :: "nat \<Rightarrow> (jsstring \<times> jsstring option) list \<Rightarrow> jsstring + jsstring list" where
  "recipe_lines index [] = Inr []"
| "recipe_lines index ((name, None) # recipes) = Inl (js ''RangeError: Invalid time value'')"
| "recipe_lines index ((name, Some isoString) # recipes) =
     (case recipe_lines (index + 1) recipes of
        Inl error \<Rightarrow> Inl error
      | Inr lines \<Rightarrow>
          Inr ((number_text (int index + 1) @ js ''. '' @ name @ js '' (''
                @ takeWhile (\<lambda>c. c \<noteq> 84) isoString @ js '')'') # lines))"

definition EdaCommands_recipeList ::
  "world \<Rightarrow> EdaCommandContext \<Rightarrow> jsstring list \<Rightarrow> EdaCommandOptions \<Rightarrow> EdaCommandResult \<times> world" where
  "EdaCommands_recipeList w context args options =
     (let recipes = listed_recipes w
      in if recipes = []
         then (\<lparr>success = True,
                 message = js ''No recipe files found. Run /eda:recipe:init to create one.'',
                 data = None, exitCode = None\<rparr>, w)
         else (case recipe_lines 0 recipes of
                 Inl error \<Rightarrow>
                   (\<lparr>success = False, message = js ''Error listing recipes: '' @ error,
                      data = None, exitCode = Some 1\<rparr>, w)
               | Inr lines \<Rightarrow>
                   (\<lparr>success = True,
                      message = js ''Available recipes:'' @ [10] @ join_lines lines,
                      data = None, exitCode = None\<rparr>, w)))"

definition EdaCommands_run ::
  "world \<Rightarrow> EdaCommandContext \<Rightarrow> jsstring list \<Rightarrow> EdaCommandOptions \<Rightarrow> EdaCommandResult \<times> world" where
  "EdaCommands_run w context args options =
     (let scriptPath = (case args of a # as \<Rightarrow> resolve w a
                        | [] \<Rightarrow> join (recipesDir context) DEFAULT_RECIPE_NAME);
          scriptValidation = validateRecipeFile w scriptPath;
          dirValidation = validateDirectoryStructure w context
      in if \<not> valid scriptValidation
         then (\<lparr>success = False, message = join_lines (errors scriptValidation), data = None,
                 exitCode = Some 1\<rparr>, w)
         else if \<not> valid dirValidation
         then (\<lparr>success = False, message = join_lines (errors dirValidation), data = None,
                 exitCode = Some 1\<rparr>, w)
         else if \<not> yosys_available w
         then (\<lparr>success = False,
                 message = js ''Yosys not found. Please install Yosys and ensure it is on your PATH.'',
                 data = None, exitCode = Some 1\<rparr>, w)
         else
           (case ensureDirectories w context of
              (Inl error, w1) \<Rightarrow>
                (\<lparr>success = False, message = js ''Error running Yosys: '' @ error, data = None,
                   exitCode = Some 1\<rparr>, w1)
            | (Inr u, w1) \<Rightarrow>
                (case runYosys w1 scriptPath (seed options) of
                   (result_stdout, result_stderr, result_exitCode) \<Rightarrow>
                (let duration = elapsed_ms w1;
                     yosysOutput = \<lparr>stdout = result_stdout, stderr = result_stderr,
                                      EdaYosysOutput.exitCode = result_exitCode, duration = duration\<rparr>
                 in case parseMetrics yosysOutput of
                      None \<Rightarrow>
                        (\<lparr>success = False,
                           message = js ''Failed to parse Yosys output. Check the log file for details.'',
                           data = None, exitCode = Some 1\<rparr>, w1)
                    | Some metrics' \<Rightarrow>
                        (let yosysVersion = yosys_version w1;
                             edaResult =
                               \<lparr>provenance =
                                  \<lparr>tool = js ''yosys'',
                                     tool_version =
                                       (case yosysVersion of
                                          None \<Rightarrow> js ''unknown''
                                        | Some v \<Rightarrow> if v = [] then js ''unknown'' else v),
                                     git_commit = getGitCommit w1,
                                     EdaProvenance.timestamp_utc = clock_iso w1,
                                     host = hostname w1,
                                     os = platform_arch w1,
                                     gemini_eda_version = EDA_VERSION\<rparr>,
                                 run =
                                  \<lparr>EdaRun.script_path = scriptPath,
                                     EdaRun.seed =
                                       (case seed options of
                                          None \<Rightarrow> None
                                        | Some n \<Rightarrow> if n = 0 then None else Some n),
                                     EdaRun.cwd = cwd context,
                                     cmd = js ''yosys -s '' @ scriptPath,
                                     duration_ms = duration,
                                     exit_code = result_exitCode\<rparr>,
                                 EdaResult.metrics =
                                  \<lparr>cells = cells metrics', levels = levels metrics',
                                     area_um2 = area_um2 metrics', warnings = warnings metrics',
                                     wns_ns = None, tns_ns = None, utilization_pct = None\<rparr>,
                                 artifacts =
                                  \<lparr>log_path = join (logsDir context) EDA_LOG_FILE,
                                     output_netlist = extractOutputNetlist w1 scriptPath\<rparr>\<rparr>;
                             resultPath = join (lastRunDir context) EDA_RESULT_FILE
                         in case writeFile w1 resultPath (ResultJson edaResult) of
                              Inl error \<Rightarrow>
                                (\<lparr>success = False, message = js ''Error running Yosys: '' @ error,
                                   data = None, exitCode = Some 1\<rparr>, w1)
                            | Inr w2 \<Rightarrow>
                                (let logPath = join (logsDir context) EDA_LOG_FILE
                                 in case writeFile w2 logPath
                                      (Text (result_stdout @ [10, 10] @ js ''--- STDERR ---'' @ [10]
                                             @ result_stderr)) of
                                      Inl error \<Rightarrow>
                                        (\<lparr>success = False,
                                           message = js ''Error running Yosys: '' @ error,
                                           data = None, exitCode = Some 1\<rparr>, w2)
                                    | Inr w3 \<Rightarrow>
                                        (\<lparr>success = True,
                                           message = [9989] @ js '' Wrote '' @ resultPath,
                                           data = Some (ResultData edaResult),
                                           exitCode = None\<rparr>, w3)))))))"

definition EdaCommands_baselineSeed ::
  "world \<Rightarrow> EdaCommandContext \<Rightarrow> jsstring list \<Rightarrow> EdaCommandOptions \<Rightarrow> EdaCommandResult \<times> world" where
  "EdaCommands_baselineSeed w context args options =
     (let resultPath = join (lastRunDir context) EDA_RESULT_FILE
      in if \<not> fileExists w resultPath
         then (\<lparr>success = False,
                 message = js ''No baseline found. Run /eda:baseline:seed after a successful /eda:run.'',
                 data = None, exitCode = Some 1\<rparr>, w)
         else
           (case readFile w resultPath of
              Inl error \<Rightarrow>
                (\<lparr>success = False, message = js ''Error saving baseline: '' @ error, data = None,
                   exitCode = Some 1\<rparr>, w)
            | Inr resultContent \<Rightarrow>
                (case as_result resultContent of
                   Inl error \<Rightarrow>
                     (\<lparr>success = False, message = js ''Error saving baseline: '' @ error,
                        data = None, exitCode = Some 1\<rparr>, w)
                 | Inr result \<Rightarrow>
                     (let baseline =
                            \<lparr>EdaBaseline.metrics = EdaResult.metrics result,
                               EdaBaseline.timestamp_utc =
                                 EdaProvenance.timestamp_utc (provenance result),
                               run_info =
                                 \<lparr>EdaBaselineRunInfo.script_path = EdaRun.script_path (run result),
                                    EdaBaselineRunInfo.seed = EdaRun.seed (run result)\<rparr>\<rparr>;
                          baselinePath = join (edaDir context) EDA_BASELINE_FILE
                      in case writeFile w baselinePath (BaselineJson baseline) of
                           Inl error \<Rightarrow>
                             (\<lparr>success = False, message = js ''Error saving baseline: '' @ error,
                                data = None, exitCode = Some 1\<rparr>, w)
                         | Inr w' \<Rightarrow>
                             (\<lparr>success = True, message = [10004] @ js '' Baseline saved'',
                                data = None, exitCode = None\<rparr>, w')))))"

definition EdaCommands_verify ::
  "world \<Rightarrow> EdaCommandContext \<Rightarrow> jsstring list \<Rightarrow> EdaCommandOptions \<Rightarrow> EdaCommandResult \<times> world" where
  "EdaCommands_verify w context args options =
     (let baselinePath = join (edaDir context) EDA_BASELINE_FILE;
          resultPath = join (lastRunDir context) EDA_RESULT_FILE
      in if \<not> fileExists w baselinePath
         then (\<lparr>success = False,
                 message = js ''No baseline found. Run /eda:baseline:seed after a successful /eda:run.'',
                 data = None, exitCode = Some 1\<rparr>, w)
         else if \<not> fileExists w resultPath
         then (\<lparr>success = False, message = js ''No last run found. Run /eda:run first.'',
                 data = None, exitCode = Some 1\<rparr>, w)
         else
           (case readFile w baselinePath of
              Inl error \<Rightarrow>
                (\<lparr>success = False, message = js ''Error during verification: '' @ error,
                   data = None, exitCode = Some 1\<rparr>, w)
            | Inr baselineContent \<Rightarrow>
           (case readFile w resultPath of
              Inl error \<Rightarrow>
                (\<lparr>success = False, message = js ''Error during verification: '' @ error,
                   data = None, exitCode = Some 1\<rparr>, w)
            | Inr resultContent \<Rightarrow>
           (case metrics_of baselineContent of
              Inl error \<Rightarrow>
                (\<lparr>success = False, message = js ''Error during verification: '' @ error,
                   data = None, exitCode = Some 1\<rparr>, w)
            | Inr baseline_metrics \<Rightarrow>
           (case metrics_of resultContent of
              Inl error \<Rightarrow>
                (\<lparr>success = False, message = js ''Error during verification: '' @ error,
                   data = None, exitCode = Some 1\<rparr>, w)
            | Inr result_metrics \<Rightarrow>
                (let verification = performVerification baseline_metrics result_metrics
                 in (\<lparr>success = accepted verification,
                       message = EdaVerificationResult.message verification,
                       data = Some (VerificationData verification),
                       exitCode = Some (if accepted verification then 0 else 1)\<rparr>, w)))))))"

text \<open>
  \<open>last\<close>. The area is the one number of the summary that need not be an integer; its
  text is the world's \<open>float_text\<close>.
\<close>

definition EdaCommands_last ::
  "world \<Rightarrow> EdaCommandContext \<Rightarrow> jsstring list \<Rightarrow> EdaCommandOptions \<Rightarrow> EdaCommandResult \<times> world" where
  "EdaCommands_last w context args options =
     (let resultPath = join (lastRunDir context) EDA_RESULT_FILE
      in if \<not> fileExists w resultPath
         then (\<lparr>success = False, message = js ''No last run found. Run /eda:run first.'',
                 data = None, exitCode = Some 1\<rparr>, w)
         else
           (case readFile w resultPath of
              Inl error \<Rightarrow>
                (\<lparr>success = False, message = js ''Error reading last run: '' @ error, data = None,
                   exitCode = Some 1\<rparr>, w)
            | Inr resultContent \<Rightarrow>
                (case as_result resultContent of
                   Inl error \<Rightarrow>
                     (\<lparr>success = False, message = js ''Error reading last run: '' @ error,
                        data = None, exitCode = Some 1\<rparr>, w)
                 | Inr result \<Rightarrow>
                     (let summary = trim (join_lines
                        [[],
                         js ''Last Run Summary:'',
                         js ''  Script: '' @ EdaRun.script_path (run result),
                         js ''  Seed: '' @
                           (case EdaRun.seed (run result) of
                              None \<Rightarrow> js ''N/A''
                            | Some n \<Rightarrow> if n = 0 then js ''N/A'' else number_text n),
                         js ''  Duration: '' @ number_text (duration_ms (run result)) @ js ''ms'',
                         js ''  Exit Code: '' @ number_text (exit_code (run result)),
                         js ''  '',
                         js ''Metrics:'',
                         js ''  Cells: '' @ number_text (cells (EdaResult.metrics result)),
                         js ''  Levels: '' @ number_text (levels (EdaResult.metrics result)),
                         js ''  Area: '' @
                           (case area_um2 (EdaResult.metrics result) of
                              None \<Rightarrow> js ''N/A''
                            | Some a \<Rightarrow> if a = 0 then js ''N/A''
                                        else float_text w a @ js '' um'' @ [178]),
                         js ''  Warnings: '' @
                           (case warnings (EdaResult.metrics result) of
                              None \<Rightarrow> js ''0''
                            | Some n \<Rightarrow> if n = 0 then js ''0'' else number_text n),
                         js ''  '',
                         js ''Timestamp: '' @ EdaProvenance.timestamp_utc (provenance result),
                         js ''Yosys Version: '' @ tool_version (provenance result),
                         []])
                      in (\<lparr>success = True, message = summary, data = Some (ResultData result),
                            exitCode = None\<rparr>, w)))))"

subsection \<open>The dispatcher (\<open>EdaCli\<close>)\<close>

definition createEdaContext :: "jsstring \<Rightarrow> EdaCommandContext" where
  "createEdaContext cwd' =
     (let edaDir = join cwd' EDA_DIR_NAME
      in \<lparr>cwd = cwd',
          edaDir = edaDir,
          logsDir = join edaDir EDA_LOGS_DIR,
          lastRunDir = join edaDir EDA_LAST_RUN_DIR,
          recipesDir = join cwd' EDA_RECIPES_DIR,
          rtlDir = join cwd' EDA_RTL_DIR,
          buildDir = join cwd' EDA_BUILD_DIR\<rparr>)"

text \<open>
  \<open>handleEdaCommand\<close> after \<open>parseArgs\<close>: the \<open>switch\<close> over the command word
  (\<open>dispatch\<close>), and the update of \<open>process.exitCode\<close>, which is written only after a
  failure that carries a truthy exit code. The display of the message is not modelled.
\<close>

definition dispatch ::
  "world \<Rightarrow> EdaCommandContext \<Rightarrow> jsstring \<Rightarrow> jsstring list \<Rightarrow> EdaCommandOptions
     \<Rightarrow> EdaCommandResult \<times> world" where
  "dispatch w edaContext command commandArgs options =
     (if command = js ''help'' then EdaCommands_help w edaContext commandArgs options
      else if command = js ''recipe'' then
        (if commandArgs \<noteq> [] \<and> hd commandArgs = js ''init''
         then EdaCommands_recipeInit w edaContext (tl commandArgs) options
         else if commandArgs \<noteq> [] \<and> hd commandArgs = js ''list''
         then EdaCommands_recipeList w edaContext (tl commandArgs) options
         else (\<lparr>success = False,
                 message = js ''Unknown recipe command. Use /eda:recipe:init or /eda:recipe:list.'',
                 data = None, exitCode = Some 1\<rparr>, w))
      else if command = js ''run'' then EdaCommands_run w edaContext commandArgs options
      else if command = js ''baseline'' then
        (if commandArgs \<noteq> [] \<and> hd commandArgs = js ''seed''
         then EdaCommands_baselineSeed w edaContext (tl commandArgs) options
         else (\<lparr>success = False, message = js ''Unknown baseline command. Use /eda:baseline:seed.'',
                 data = None, exitCode = Some 1\<rparr>, w))
      else if command = js ''verify'' then EdaCommands_verify w edaContext commandArgs options
      else if command = js ''last'' then EdaCommands_last w edaContext commandArgs options
      else (\<lparr>success = False,
              message = js ''Unknown EDA command: '' @ command
                @ js ''. Use /eda:help for available commands.'',
              data = None, exitCode = Some 1\<rparr>, w))"

definition handleEdaCommand ::
  "world \<Rightarrow> jsstring \<Rightarrow> jsstring \<Rightarrow> jsstring list \<Rightarrow> EdaCommandOptions \<Rightarrow> int option
     \<Rightarrow> EdaCommandResult \<times> world \<times> int option" where
  "handleEdaCommand w cwd' command commandArgs options process_exitCode =
     (case dispatch w (createEdaContext cwd') command commandArgs options of
        (result, w') \<Rightarrow>
          (result, w',
           if \<not> success result \<and> exitCode result \<noteq> None \<and> exitCode result \<noteq> Some 0
           then exitCode result else process_exitCode))"

section \<open>The reading of the claims\<close>

subsection \<open>What it means for a pattern to occur\<close>

text \<open>
  The reading of the three integer patterns that the properties below are stated in:
  the label occurs in the buffer after the prefix \<open>pre\<close>, in any letter case, followed
  by white space, followed by a run of digits \<open>ds\<close> that is not continued by a further
  digit. \<open>first_int_field\<close> is the occurrence with the shortest prefix, and
  \<open>int_field\<close> reads an occurrence off the start of a text directly.
\<close>

definition int_field_occurs :: "jsstring \<Rightarrow> jsstring \<Rightarrow> jsstring \<Rightarrow> jsstring \<Rightarrow> bool" where
  "int_field_occurs label buf pre ds \<longleftrightarrow>
     (\<exists>lab ws post. buf = pre @ lab @ ws @ ds @ post \<and>
        map canonicalize lab = map canonicalize label \<and> (\<forall>c\<in>set ws. is_space c) \<and>
        ds \<noteq> [] \<and> (\<forall>c\<in>set ds. is_digit c) \<and> (\<forall>c post'. post = c # post' \<longrightarrow> \<not> is_digit c))"

definition int_field :: "jsstring \<Rightarrow> regex" where
  "int_field label s =
     (if length label \<le> length s \<and> map canonicalize (take (length label) s) = map canonicalize label
      then let r = dropWhile is_space (drop (length label) s)
           in if takeWhile is_digit r = [] then None
              else Some (takeWhile is_digit r, dropWhile is_digit r)
      else None)"








subsection \<open>Exit codes\<close>

text \<open>
  The exit code a command's result stands for: a result without \<open>exitCode\<close> leaves
  \<open>process.exitCode\<close> as it is, and a process that never set it exits with 0.
\<close>

definition effective_exit_code :: "EdaCommandResult \<Rightarrow> int" where
  "effective_exit_code result = (case exitCode result of None \<Rightarrow> 0 | Some c \<Rightarrow> c)"

definition exit_code_ok :: "EdaCommandResult \<Rightarrow> bool" where
  "exit_code_ok result \<longleftrightarrow>
     effective_exit_code result = (if success result then 0 else 1) \<and>
     (exitCode result = None \<or> exitCode result = Some 0 \<or> exitCode result = Some 1)"

subsection \<open>A project for the examples\<close>

text \<open>
  A project for the examples: a recipe and an \<open>rtl\<close> directory under \<open>/p\<close>, no I/O
  failures, Yosys installed, and a child process that prints the given text on stdout
  and ends with the given event.
\<close>

definition example_world :: "jsstring \<Rightarrow> ending \<Rightarrow> world" where
  "example_world printed ended =
     \<lparr>fs = [js ''/p/recipes/synth_resyn2.ys'' \<mapsto> File (Text DEFAULT_RECIPE_CONTENT),
             js ''/p/rtl'' \<mapsto> Directory],
      io_error = (\<lambda>path. None),
      resolve = (\<lambda>path. path),
      yosys_available = True,
      yosys_version = Some (js ''Yosys 0.9''),
      spawn_yosys = (\<lambda>args. \<lparr>stdout_data = printed, stderr_data = [], ending = ended\<rparr>),
      elapsed_ms = 1000,
      clock_iso = js ''2025-01-01T00:00:00.000Z'',
      git_head = None,
      hostname = js ''host'',
      platform_arch = js ''linux-x64'',
      float_text = (\<lambda>a. []),
      listed_recipes = []\<rparr>"

definition no_options :: EdaCommandOptions where
  "no_options = \<lparr>force = None, seed = None, verbose = None\<rparr>"

text \<open>Metrics with the given cells and levels, and a Result that holds them.\<close>

definition example_metrics :: "int \<Rightarrow> int \<Rightarrow> EdaMetrics" where
  "example_metrics c l =
     \<lparr>cells = c, levels = l, area_um2 = None, warnings = Some 0,
        wns_ns = None, tns_ns = None, utilization_pct = None\<rparr>"

definition example_result :: "int \<Rightarrow> int \<Rightarrow> EdaResult" where
  "example_result c l =
     \<lparr>provenance =
        \<lparr>tool = js ''yosys'', tool_version = js ''Yosys 0.9'', git_commit = None,
           EdaProvenance.timestamp_utc = js ''2025-01-01T00:00:00.000Z'', host = js ''host'',
           os = js ''linux-x64'', gemini_eda_version = EDA_VERSION\<rparr>,
      run =
        \<lparr>EdaRun.script_path = js ''/p/recipes/synth_resyn2.ys'', EdaRun.seed = Some 1,
           EdaRun.cwd = js ''/p'', cmd = js ''yosys -s /p/recipes/synth_resyn2.ys'',
           duration_ms = 1000, exit_code = 0\<rparr>,
      EdaResult.metrics = example_metrics c l,
      artifacts = \<lparr>log_path = js ''/p/.gemini_eda/logs/yosys.log'', output_netlist = None\<rparr>\<rparr>"

section \<open>Properties of the extractor\<close>

lemma re_lit_eq:
  "re_lit l k s =
     (if length l \<le> length s \<and> map canonicalize (take (length l) s) = map canonicalize l
      then k (drop (length l) s) else None)"
  by (induction l k s rule: re_lit.induct) auto

lemma re_star_skip:
  assumes "\<And>c cs. P c \<Longrightarrow> k (c # cs) = None"
  shows "re_star P k s = k (dropWhile P s)"
  using assms by (induction s) (auto split: option.splits)

lemma re_star_greedy:
  "k (dropWhile P s) \<noteq> None \<Longrightarrow> re_star P k s = k (dropWhile P s)"
  by (induction s) (auto split: option.splits)

lemma length_dropWhile_diff:
  "length s - length (dropWhile P s) = length (takeWhile P s)"
proof -
  have "length (takeWhile P s) + length (dropWhile P s) = length s"
    by (simp flip: length_append)
  then show ?thesis by linarith
qed

lemma take_length_dropWhile:
  "take (length s - length (dropWhile P s)) s = takeWhile P s"
proof -
  have "take (length (takeWhile P s)) (takeWhile P s @ dropWhile P s) = takeWhile P s"
    by (simp del: takeWhile_dropWhile_id)
  then show ?thesis
    by (simp add: length_dropWhile_diff)
qed

lemma re_group_plus_digits:
  assumes K: "\<And>cap rest. K cap rest \<noteq> None"
  shows "re_group (re_plus is_digit) K s =
     (if takeWhile is_digit s = [] then None
      else K (takeWhile is_digit s) (dropWhile is_digit s))"
proof (cases s)
  case Nil
  then show ?thesis by (simp add: re_group_def re_plus_def)
next
  case (Cons c cs)
  show ?thesis
  proof (cases "is_digit c")
    case False
    with Cons show ?thesis by (simp add: re_group_def re_plus_def)
  next
    case True
    define k where "k = (\<lambda>rest. K (take (length s - length rest) s) rest)"
    have dw: "dropWhile is_digit cs = dropWhile is_digit s"
      using True Cons by simp
    have "re_star is_digit k cs = k (dropWhile is_digit cs)"
      by (rule re_star_greedy) (simp add: k_def K)
    also have "\<dots> = k (dropWhile is_digit s)"
      by (simp only: dw)
    also have "\<dots> = K (takeWhile is_digit s) (dropWhile is_digit s)"
      by (simp only: k_def take_length_dropWhile)
    finally have 1: "re_star is_digit k cs = K (takeWhile is_digit s) (dropWhile is_digit s)" .
    have 2: "re_group (re_plus is_digit) K s = re_one is_digit (re_star is_digit k) s"
      by (simp only: re_group_def re_plus_def k_def)
    have 3: "re_one is_digit (re_star is_digit k) s = re_star is_digit k cs"
      by (simp only: Cons re_one.simps True if_True)
    have 4: "takeWhile is_digit s \<noteq> []"
      by (simp add: Cons True)
    show ?thesis
      by (simp only: 1 2 3 4 if_False)
  qed
qed

lemma space_not_digit: "is_space c \<Longrightarrow> \<not> is_digit c"
  by (auto simp: is_space_def is_digit_def)

lemma labelled_int_eq:
  "re_lit label (re_star is_space (re_group (re_plus is_digit) accept)) = int_field label"
proof
  fix s
  have k: "re_group (re_plus is_digit) accept t =
      (if takeWhile is_digit t = [] then None
       else Some (takeWhile is_digit t, dropWhile is_digit t))" for t
    using re_group_plus_digits [of accept t] by (simp add: accept_def)
  have "re_star is_space (re_group (re_plus is_digit) accept) t =
      re_group (re_plus is_digit) accept (dropWhile is_space t)" for t
    by (rule re_star_skip) (simp add: k space_not_digit)
  then show "re_lit label (re_star is_space (re_group (re_plus is_digit) accept)) s = int_field label s"
    by (simp add: re_lit_eq int_field_def k Let_def)
qed

lemma int_field_occurs_iff:
  "int_field_occurs label buf pre ds \<longleftrightarrow>
     (\<exists>post rest. buf = pre @ post \<and> int_field label post = Some (ds, rest))"
proof
  assume "int_field_occurs label buf pre ds"
  then obtain lab ws post where buf: "buf = pre @ lab @ ws @ ds @ post"
    and lab: "map canonicalize lab = map canonicalize label"
    and ws: "\<forall>c\<in>set ws. is_space c" and ds: "ds \<noteq> []" "\<forall>c\<in>set ds. is_digit c"
    and post: "\<forall>c post'. post = c # post' \<longrightarrow> \<not> is_digit c"
    unfolding int_field_occurs_def by blast
  have len: "length lab = length label"
    using lab by (metis length_map)
  have "\<not> is_space (hd ds)"
    using ds space_not_digit by (cases ds) auto
  then have 1: "dropWhile is_space (ws @ ds @ post) = ds @ post"
    using ws ds(1) by (cases ds) (simp_all add: dropWhile_append)
  have 2: "takeWhile is_digit (ds @ post) = ds"
    using ds(2) post by (cases post) (simp_all add: takeWhile_append)
  have 3: "dropWhile is_digit (ds @ post) = post"
    using ds(2) post by (cases post) (simp_all add: dropWhile_append)
  have "int_field label (lab @ ws @ ds @ post) = Some (ds, post)"
    using len lab ds(1) by (simp add: int_field_def 1 2 3)
  with buf show "\<exists>post rest. buf = pre @ post \<and> int_field label post = Some (ds, rest)"
    by blast
next
  assume "\<exists>post rest. buf = pre @ post \<and> int_field label post = Some (ds, rest)"
  then obtain post rest where buf: "buf = pre @ post"
    and m: "int_field label post = Some (ds, rest)" by blast
  define lab where "lab = take (length label) post"
  define r where "r = drop (length label) post"
  from m have c: "length label \<le> length post" "map canonicalize lab = map canonicalize label"
    and ds: "takeWhile is_digit (dropWhile is_space r) \<noteq> []"
            "ds = takeWhile is_digit (dropWhile is_space r)"
            "rest = dropWhile is_digit (dropWhile is_space r)"
    by (auto simp: int_field_def lab_def r_def Let_def split: if_splits)
  have "post = lab @ takeWhile is_space r @ ds @ rest"
    by (simp add: lab_def r_def ds)
  moreover have "\<forall>c\<in>set (takeWhile is_space r). is_space c"
    by (auto dest: set_takeWhileD)
  moreover have "\<forall>c\<in>set ds. is_digit c"
    by (auto simp: ds dest: set_takeWhileD)
  moreover have "\<forall>c post'. rest = c # post' \<longrightarrow> \<not> is_digit c"
    unfolding ds by (metis hd_dropWhile list.discI list.sel(1))
  ultimately show "int_field_occurs label buf pre ds"
    unfolding int_field_occurs_def using buf c(2) ds(1,2) by blast
qed

lemma match_None_iff:
  "match re buf = None \<longleftrightarrow> (\<forall>pre post. buf = pre @ post \<longrightarrow> re post = None)"
proof (induction buf)
  case Nil
  then show ?case by simp
next
  case (Cons c cs)
  have "(\<forall>pre post. c # cs = pre @ post \<longrightarrow> re post = None) \<longleftrightarrow>
        re (c # cs) = None \<and> (\<forall>pre post. cs = pre @ post \<longrightarrow> re post = None)"
    by (auto simp: Cons_eq_append_conv)
  with Cons show ?case by (auto split: option.splits)
qed



lemma match_int_field_None:
  "match (int_field label) buf = None \<longleftrightarrow> (\<forall>pre ds. \<not> int_field_occurs label buf pre ds)"
proof -
  have "(\<forall>pre ds. \<not> int_field_occurs label buf pre ds) \<longleftrightarrow>
        (\<forall>pre post. buf = pre @ post \<longrightarrow> int_field label post = None)"
    unfolding int_field_occurs_iff by (metis not_Some_eq surj_pair)
  then show ?thesis by (simp only: match_None_iff)
qed



lemma CELLS_PATTERN_eq: "CELLS_PATTERN = int_field (js ''Number of cells:'')"
  by (simp only: CELLS_PATTERN_def labelled_int_eq)

lemma LEVELS_PATTERN_eq: "LEVELS_PATTERN = int_field (js ''Longest path (levels):'')"
  by (simp only: LEVELS_PATTERN_def labelled_int_eq)



lemma extractCells_None:
  "extractCells buf = None \<longleftrightarrow> (\<forall>pre ds. \<not> int_field_occurs (js ''Number of cells:'') buf pre ds)"
  by (simp add: extractCells_def CELLS_PATTERN_eq flip: match_int_field_None split: option.splits)

lemma extractLevels_None:
  "extractLevels buf = None \<longleftrightarrow>
     (\<forall>pre ds. \<not> int_field_occurs (js ''Longest path (levels):'') buf pre ds)"
  by (simp add: extractLevels_def LEVELS_PATTERN_eq flip: match_int_field_None split: option.splits)











































section \<open>Properties of the commands\<close>

lemma help_exit: "exit_code_ok (fst (EdaCommands_help w context args options))"
  by (simp add: EdaCommands_help_def exit_code_ok_def effective_exit_code_def)

lemma recipeInit_exit: "exit_code_ok (fst (EdaCommands_recipeInit w context args options))"
  by (simp add: EdaCommands_recipeInit_def exit_code_ok_def effective_exit_code_def Let_def
      split: prod.splits sum.splits)

lemma recipeList_exit: "exit_code_ok (fst (EdaCommands_recipeList w context args options))"
  by (simp add: EdaCommands_recipeList_def exit_code_ok_def effective_exit_code_def Let_def
      split: prod.splits sum.splits)

lemma run_exit: "exit_code_ok (fst (EdaCommands_run w context args options))"
  by (simp add: EdaCommands_run_def exit_code_ok_def effective_exit_code_def Let_def
      split: prod.splits sum.splits option.splits)

lemma baselineSeed_exit: "exit_code_ok (fst (EdaCommands_baselineSeed w context args options))"
  by (simp add: EdaCommands_baselineSeed_def exit_code_ok_def effective_exit_code_def Let_def
      split: prod.splits sum.splits)

lemma verify_exit: "exit_code_ok (fst (EdaCommands_verify w context args options))"
  by (simp add: EdaCommands_verify_def exit_code_ok_def effective_exit_code_def Let_def
      split: prod.splits sum.splits)

lemma last_exit: "exit_code_ok (fst (EdaCommands_last w context args options))"
  by (simp add: EdaCommands_last_def exit_code_ok_def effective_exit_code_def Let_def
      split: prod.splits sum.splits)

lemma dispatch_exit: "exit_code_ok (fst (dispatch w context command commandArgs options))"
  unfolding dispatch_def
  by (simp add: help_exit recipeInit_exit recipeList_exit run_exit baselineSeed_exit verify_exit
      last_exit) (simp add: exit_code_ok_def effective_exit_code_def)

lemma verify_outcome:
  assumes "fs w (join (edaDir context) EDA_BASELINE_FILE) = Some (File baselineContent)"
    and "fs w (join (lastRunDir context) EDA_RESULT_FILE) = Some (File resultContent)"
    and "io_error w (join (edaDir context) EDA_BASELINE_FILE) = None"
    and "io_error w (join (lastRunDir context) EDA_RESULT_FILE) = None"
    and "metrics_of baselineContent = Inr baseline_metrics"
    and "metrics_of resultContent = Inr result_metrics"
  shows "EdaCommands_verify w context args options =
     (\<lparr>success = accepted (performVerification baseline_metrics result_metrics),
        message = EdaVerificationResult.message (performVerification baseline_metrics result_metrics),
        data = Some (VerificationData (performVerification baseline_metrics result_metrics)),
        exitCode = Some (if accepted (performVerification baseline_metrics result_metrics)
                         then 0 else 1)\<rparr>, w)"
  using assms by (simp add: EdaCommands_verify_def Let_def fileExists_def readFile_def)






lemma example_paths:
  "join (edaDir (createEdaContext (js ''/p''))) EDA_BASELINE_FILE = js ''/p/.gemini_eda/baseline.json''"
  "join (lastRunDir (createEdaContext (js ''/p''))) EDA_RESULT_FILE = js ''/p/.gemini_eda/last_run/result.json''"
  "join (logsDir (createEdaContext (js ''/p''))) EDA_LOG_FILE = js ''/p/.gemini_eda/logs/yosys.log''"
  by (simp_all add: createEdaContext_def join_def js_def Let_def EDA_DIR_NAME_def EDA_BASELINE_FILE_def
      EDA_LAST_RUN_DIR_def EDA_RESULT_FILE_def EDA_LOGS_DIR_def EDA_LOG_FILE_def)


section \<open>The claims\<close>






text \<open>
  C3. When the combined text has no occurrence of the cells pattern, or none of the
  levels pattern, the extractor returns the not-parseable signal (no metrics record at
  all), whatever else the text holds.
\<close>

theorem parseMetrics_not_parseable:
  assumes "(\<forall>pre ds. \<not> int_field_occurs (js ''Number of cells:'') (combinedOutput out) pre ds) \<or>
           (\<forall>pre ds. \<not> int_field_occurs (js ''Longest path (levels):'') (combinedOutput out) pre ds)"
  shows "parseMetrics out = None"
proof -
  from assms have "extractCells (combinedOutput out) = None \<or> extractLevels (combinedOutput out) = None"
    by (simp only: extractCells_None extractLevels_None)
  then show ?thesis
    by (auto simp: parseMetrics_def split: option.splits)
qed

theorem parseMetrics_not_parseable_witness:
  "(\<forall>pre ds. \<not> int_field_occurs (js ''Longest path (levels):'')
      (combinedOutput \<lparr>stdout = js ''Number of cells: 7'', stderr = js ''Warning: 2'',
         EdaYosysOutput.exitCode = 0, duration = 1000\<rparr>) pre ds) \<and>
   parseMetrics \<lparr>stdout = js ''Number of cells: 7'', stderr = js ''Warning: 2'',
         EdaYosysOutput.exitCode = 0, duration = 1000\<rparr> = None"
proof -
  let ?out = "\<lparr>stdout = js ''Number of cells: 7'', stderr = js ''Warning: 2'',
         EdaYosysOutput.exitCode = 0, duration = 1000\<rparr>"
  have "match (int_field (js ''Longest path (levels):'')) (combinedOutput ?out) = None"
    by (simp add: combinedOutput_def int_field_def js_def canonicalize_def)
  then have n: "\<forall>pre ds. \<not> int_field_occurs (js ''Longest path (levels):'') (combinedOutput ?out) pre ds"
    unfolding match_int_field_None .
  then have "(\<forall>pre ds. \<not> int_field_occurs (js ''Number of cells:'') (combinedOutput ?out) pre ds) \<or>
           (\<forall>pre ds. \<not> int_field_occurs (js ''Longest path (levels):'') (combinedOutput ?out) pre ds)"
    by (rule disjI2)
  from parseMetrics_not_parseable [OF this] n show ?thesis by blast
qed







text \<open>
  C8. Whatever the command and the world, the outcome of a command stands for exit code
  0 exactly when it succeeded and for 1 when it failed; its \<open>exitCode\<close> is absent, 0 or
  1, and \<open>process.exitCode\<close> is left as it was or set to 1. A verification that reads
  both documents returns its comparison as the outcome's data, with success and exit
  code 0 when it accepts and failure and exit code 1 when it rejects.
\<close>

theorem command_exit_codes:
  "(case handleEdaCommand w cwd' command commandArgs options process_exitCode of
      (result, w', process_exitCode') \<Rightarrow>
        effective_exit_code result = (if success result then 0 else 1) \<and>
        (exitCode result = None \<or> exitCode result = Some 0 \<or> exitCode result = Some 1) \<and>
        (process_exitCode' = process_exitCode \<or> process_exitCode' = Some 1)) \<and>
   (fs w (join (edaDir edaContext) EDA_BASELINE_FILE) = Some (File baselineContent) \<and>
    fs w (join (lastRunDir edaContext) EDA_RESULT_FILE) = Some (File resultContent) \<and>
    io_error w (join (edaDir edaContext) EDA_BASELINE_FILE) = None \<and>
    io_error w (join (lastRunDir edaContext) EDA_RESULT_FILE) = None \<and>
    metrics_of baselineContent = Inr baseline_metrics \<and>
    metrics_of resultContent = Inr result_metrics \<and>
    \<not> accepted (performVerification baseline_metrics result_metrics) \<longrightarrow>
    EdaCommands_verify w edaContext args options =
      (\<lparr>success = False,
         message = EdaVerificationResult.message (performVerification baseline_metrics result_metrics),
         data = Some (VerificationData (performVerification baseline_metrics result_metrics)),
         exitCode = Some 1\<rparr>, w))"
proof (intro conjI impI)
  obtain result w' where d: "dispatch w (createEdaContext cwd') command commandArgs options = (result, w')"
    by (cases "dispatch w (createEdaContext cwd') command commandArgs options")
  have "exit_code_ok (fst (dispatch w (createEdaContext cwd') command commandArgs options))"
    by (rule dispatch_exit)
  with d have ok: "exit_code_ok result" by simp
  then have "exitCode result = Some 1" if "\<not> success result \<and> exitCode result \<noteq> None \<and> exitCode result \<noteq> Some 0"
    using that by (auto simp: exit_code_ok_def)
  with ok show "case handleEdaCommand w cwd' command commandArgs options process_exitCode of
      (result, w', process_exitCode') \<Rightarrow>
        effective_exit_code result = (if success result then 0 else 1) \<and>
        (exitCode result = None \<or> exitCode result = Some 0 \<or> exitCode result = Some 1) \<and>
        (process_exitCode' = process_exitCode \<or> process_exitCode' = Some 1)"
    unfolding handleEdaCommand_def d exit_code_ok_def by simp
next
  assume a: "fs w (join (edaDir edaContext) EDA_BASELINE_FILE) = Some (File baselineContent) \<and>
    fs w (join (lastRunDir edaContext) EDA_RESULT_FILE) = Some (File resultContent) \<and>
    io_error w (join (edaDir edaContext) EDA_BASELINE_FILE) = None \<and>
    io_error w (join (lastRunDir edaContext) EDA_RESULT_FILE) = None \<and>
    metrics_of baselineContent = Inr baseline_metrics \<and>
    metrics_of resultContent = Inr result_metrics \<and>
    \<not> accepted (performVerification baseline_metrics result_metrics)"
  then have "EdaCommands_verify w edaContext args options =
     (\<lparr>success = accepted (performVerification baseline_metrics result_metrics),
        message = EdaVerificationResult.message (performVerification baseline_metrics result_metrics),
        data = Some (VerificationData (performVerification baseline_metrics result_metrics)),
        exitCode = Some (if accepted (performVerification baseline_metrics result_metrics)
                         then 0 else 1)\<rparr>, w)"
    by (intro verify_outcome) blast+
  with a show "EdaCommands_verify w edaContext args options =
      (\<lparr>success = False,
         message = EdaVerificationResult.message (performVerification baseline_metrics result_metrics),
         data = Some (VerificationData (performVerification baseline_metrics result_metrics)),
         exitCode = Some 1\<rparr>, w)"
    by simp
qed

theorem command_exit_codes_witness:
  "effective_exit_code
     (fst (handleEdaCommand (example_world [] (Close (Some 0))) (js ''/p'') (js ''help'') []
        no_options None)) = 0 \<and>
   EdaCommands_verify
     ((example_world [] (Close (Some 0)))
        \<lparr>fs := [js ''/p/.gemini_eda/baseline.json''
                   \<mapsto> File (BaselineJson \<lparr>EdaBaseline.metrics = example_metrics 100 10,
                        EdaBaseline.timestamp_utc = js ''2025-01-01T00:00:00.000Z'',
                        run_info = \<lparr>EdaBaselineRunInfo.script_path = js ''/p/recipes/synth_resyn2.ys'',
                                     EdaBaselineRunInfo.seed = Some 1\<rparr>\<rparr>),
                 js ''/p/.gemini_eda/last_run/result.json''
                   \<mapsto> File (ResultJson (example_result 101 10))]\<rparr>)
     (createEdaContext (js ''/p'')) [] no_options
   = (\<lparr>success = False,
        message = EdaVerificationResult.message
          (performVerification (example_metrics 100 10) (example_metrics 101 10)),
        data = Some (VerificationData
          (performVerification (example_metrics 100 10) (example_metrics 101 10))),
        exitCode = Some 1\<rparr>,
      (example_world [] (Close (Some 0)))
        \<lparr>fs := [js ''/p/.gemini_eda/baseline.json''
                   \<mapsto> File (BaselineJson \<lparr>EdaBaseline.metrics = example_metrics 100 10,
                        EdaBaseline.timestamp_utc = js ''2025-01-01T00:00:00.000Z'',
                        run_info = \<lparr>EdaBaselineRunInfo.script_path = js ''/p/recipes/synth_resyn2.ys'',
                                     EdaBaselineRunInfo.seed = Some 1\<rparr>\<rparr>),
                 js ''/p/.gemini_eda/last_run/result.json''
                   \<mapsto> File (ResultJson (example_result 101 10))]\<rparr>)"
proof -
  let ?b = "\<lparr>EdaBaseline.metrics = example_metrics 100 10,
                        EdaBaseline.timestamp_utc = js ''2025-01-01T00:00:00.000Z'',
                        run_info = \<lparr>EdaBaselineRunInfo.script_path = js ''/p/recipes/synth_resyn2.ys'',
                                     EdaBaselineRunInfo.seed = Some 1\<rparr>\<rparr>"
  let ?w = "(example_world [] (Close (Some 0)))
        \<lparr>fs := [js ''/p/.gemini_eda/baseline.json'' \<mapsto> File (BaselineJson ?b),
                 js ''/p/.gemini_eda/last_run/result.json''
                   \<mapsto> File (ResultJson (example_result 101 10))]\<rparr>"
  let ?c = "createEdaContext (js ''/p'')"
  have h: "fs ?w (join (edaDir ?c) EDA_BASELINE_FILE) = Some (File (BaselineJson ?b)) \<and>
    fs ?w (join (lastRunDir ?c) EDA_RESULT_FILE) = Some (File (ResultJson (example_result 101 10))) \<and>
    io_error ?w (join (edaDir ?c) EDA_BASELINE_FILE) = None \<and>
    io_error ?w (join (lastRunDir ?c) EDA_RESULT_FILE) = None \<and>
    metrics_of (BaselineJson ?b) = Inr (example_metrics 100 10) \<and>
    metrics_of (ResultJson (example_result 101 10)) = Inr (example_metrics 101 10) \<and>
    \<not> accepted (performVerification (example_metrics 100 10) (example_metrics 101 10))"
    unfolding example_paths
    by (simp add: example_world_def metrics_of_def example_result_def performVerification_def
        example_metrics_def Let_def js_def)
  have e: "effective_exit_code
     (fst (handleEdaCommand (example_world [] (Close (Some 0))) (js ''/p'') (js ''help'') []
        no_options None)) = 0"
    using command_exit_codes [where w = "example_world [] (Close (Some 0))" and cwd' = "js ''/p''"
        and command = "js ''help''" and commandArgs = "[]" and options = no_options
        and process_exitCode = None]
    by (simp add: handleEdaCommand_def dispatch_def EdaCommands_help_def split: prod.splits)
  from command_exit_codes [where w = ?w and edaContext = ?c and baselineContent = "BaselineJson ?b"
      and resultContent = "ResultJson (example_result 101 10)"
      and baseline_metrics = "example_metrics 100 10" and result_metrics = "example_metrics 101 10"
      and args = "[]" and options = no_options] h e
  show ?thesis by blast
qed





end
